theory Spec2Isabelle
  imports Main
begin

section \<open>Certificates and the status reconciler (certificateService.ts)\<close>

text \<open>
  Dates are the millisecond counts that \<^verbatim>\<open>Date.getTime()\<close> returns; the clock
  reading \<^verbatim>\<open>new Date()\<close> at the head of a function is its parameter \<open>now\<close>.
  A collection of the document store is the list of its documents; a document is
  identified by its position in that list. The records carry the fields that the
  reconciler and the dispatcher read or write and the fields that the schema requires
  (\<open>issuer_commonName\<close> and \<open>subject_commonName\<close> are the paths
  \<^verbatim>\<open>issuer.commonName\<close> and \<^verbatim>\<open>subject.commonName\<close>); a string path that is
  absent from a stored document is the empty string.
\<close>

datatype cert_status = Active | Expiring | Expired | Revoked

record Deployment =
  serverId :: nat
  serverName :: string
  deployedAt :: int

record NotificationSent =
  ntype :: string
  sentAt :: int
  recipients :: "string list"

record Certificate =
  serialNumber :: string
  thumbprint :: string
  commonName :: string
  issuer_commonName :: string
  subject_commonName :: string
  validFrom :: int
  validTo :: int
  status :: cert_status
  deployedTo :: "Deployment list"
  notificationsSent :: "NotificationSent list"

text \<open>
  \<^verbatim>\<open>Model.updateMany(filter, update)\<close>: every document matching the filter is
  updated; \<^verbatim>\<open>modifiedCount\<close> counts the matching documents that the update
  changed.
\<close>

definition updateMany :: "('a \<Rightarrow> bool) \<Rightarrow> ('a \<Rightarrow> 'a) \<Rightarrow> 'a list \<Rightarrow> 'a list \<times> nat" where
  "updateMany flt upd coll =
     (map (\<lambda>d. if flt d then upd d else d) coll,
      length (filter (\<lambda>d. flt d \<and> upd d \<noteq> d) coll))"

text \<open>The three query filters of \<^verbatim>\<open>updateCertificateStatuses\<close>, in the order they are run.\<close>

definition expiredFilter :: "int \<Rightarrow> Certificate \<Rightarrow> bool" where
  \<comment> \<open>\<^verbatim>\<open>{ status: { $nin: ['expired', 'revoked'] }, validTo: { $lt: now } }\<close>\<close>
  "expiredFilter now c = (status c \<noteq> Expired \<and> status c \<noteq> Revoked \<and> validTo c < now)"

definition expiringFilter :: "int \<Rightarrow> int \<Rightarrow> Certificate \<Rightarrow> bool" where
  \<comment> \<open>\<^verbatim>\<open>{ status: 'active', validTo: { $gte: now, $lte: in30Days } }\<close>\<close>
  "expiringFilter now in30Days c = (status c = Active \<and> now \<le> validTo c \<and> validTo c \<le> in30Days)"

definition activeFilter :: "int \<Rightarrow> Certificate \<Rightarrow> bool" where
  \<comment> \<open>\<^verbatim>\<open>{ status: 'expiring', validTo: { $gt: in30Days } }\<close>\<close>
  "activeFilter in30Days c = (status c = Expiring \<and> in30Days < validTo c)"

definition setStatus :: "cert_status \<Rightarrow> Certificate \<Rightarrow> Certificate" where
  \<comment> \<open>\<^verbatim>\<open>{ $set: { status: s } }\<close>\<close>
  "setStatus s c = c\<lparr>status := s\<rparr>"

definition updateCertificateStatuses :: "int \<Rightarrow> Certificate list \<Rightarrow> Certificate list \<times> nat" where
  "updateCertificateStatuses now coll =
     (let in30Days = now + 30 * 24 * 60 * 60 * 1000;
          expiredResult = updateMany (expiredFilter now) (setStatus Expired) coll;
          expiringResult = updateMany (expiringFilter now in30Days) (setStatus Expiring)
                             (fst expiredResult);
          activeResult = updateMany (activeFilter in30Days) (setStatus Active)
                             (fst expiringResult);
          totalUpdated = snd expiredResult + snd expiringResult + snd activeResult
      in (fst activeResult, totalUpdated))"

text \<open>What one run does to a single certificate document, phase after phase.\<close>

definition reconcileOne :: "int \<Rightarrow> Certificate \<Rightarrow> Certificate" where
  "reconcileOne now c =
     (let in30Days = now + 30 * 24 * 60 * 60 * 1000;
          c1 = (if expiredFilter now c then setStatus Expired c else c);
          c2 = (if expiringFilter now in30Days c1 then setStatus Expiring c1 else c1)
      in if activeFilter in30Days c2 then setStatus Active c2 else c2)"

text \<open>A certificate on which no phase of a run at \<open>now\<close> fires.\<close>

definition settled :: "int \<Rightarrow> Certificate \<Rightarrow> bool" where
  "settled now c =
     (\<not> expiredFilter now c \<and> \<not> expiringFilter now (now + 30 * 24 * 60 * 60 * 1000) c
      \<and> \<not> activeFilter (now + 30 * 24 * 60 * 60 * 1000) c)"

text \<open>Sample documents, used to run the definitions on concrete collections.\<close>

definition sampleCert :: "string \<Rightarrow> int \<Rightarrow> cert_status \<Rightarrow> Certificate" where
  "sampleCert serial expiry st =
     \<lparr>serialNumber = serial, thumbprint = ''AB'' @ serial, commonName = ''www.example.com'',
      issuer_commonName = ''Example Issuing CA'', subject_commonName = ''www.example.com'',
      validFrom = 0, validTo = expiry, status = st, deployedTo = [], notificationsSent = []\<rparr>"

section \<open>The notification dispatcher (notificationService.ts)\<close>

text \<open>
  A run of the dispatcher reads the clock once per threshold query and once per record
  written; the embedding gives the run one instant \<open>now\<close>. Reading the settings, the
  users and the certificates succeeds (the outer catch block of the source, which only
  turns a failed read into \<^verbatim>\<open>success: false\<close>, has no counterpart). Saving a
  certificate document validates it against the schema of the collection and throws when
  the document does not conform.
\<close>

record Threshold =
  days :: int
  enabled :: bool

datatype recipient_type = RoleRecipient | UserRecipient | EmailRecipient

record Recipient =
  rtype :: recipient_type
  rvalue :: string

record NotificationSettings =
  enabled :: bool
  thresholds :: "Threshold list"
  recipients :: "Recipient list"

record User =
  username :: string
  email :: string
  roles :: "string list"

record NotificationResult =
  success :: bool
  sent :: nat
  failed :: nat
  errors :: "string list"

text \<open>
  \<^verbatim>\<open>sendExpirationEmail(cert, days, recipients, settings)\<close> renders one message and
  hands it to the mail transport; it either returns or throws. The transport is outside
  the repository, so the function is a parameter of the dispatcher: \<open>None\<close> when the
  send returned, \<open>Some e\<close> when it threw the error printed as \<open>e\<close>. (The body does
  not use its \<^verbatim>\<open>settings\<close> argument, which is left out.)
\<close>

type_synonym mailer = "Certificate \<Rightarrow> int \<Rightarrow> string list \<Rightarrow> string option"

text \<open>One call of the mailer: which document, for which threshold, and whether it returned.\<close>

record SendAttempt =
  certPos :: nat
  forDays :: int
  delivered :: bool

record DispatchState =
  certs :: "Certificate list"
  result :: NotificationResult
  outbox :: "SendAttempt list"

text \<open>
  The rendering of a number inside a template string, for the integers below \<open>10\<^sup>2\<^sup>1\<close>
  in absolute value, which are printed as their decimal digits. Day counts and key sizes
  are such integers.
\<close>

fun showNat :: "nat \<Rightarrow> string" where
  "showNat n = (if n < 10 then [char_of (48 + n)]
                else showNat (n div 10) @ [char_of (48 + n mod 10)])"

declare showNat.simps [simp del]

definition showInt :: "int \<Rightarrow> string" where
  "showInt i = (if i < 0 then CHR ''-'' # showNat (nat (- i)) else showNat (nat i))"

definition dayType :: "int \<Rightarrow> string" where
  \<comment> \<open>\<^verbatim>\<open>`${days}day`\<close>\<close>
  "dayType ds = showInt ds @ ''day''"

definition expiringInDaysFilter :: "int \<Rightarrow> int \<Rightarrow> Certificate \<Rightarrow> bool" where
  \<comment> \<open>\<^verbatim>\<open>{ status: { $ne: 'revoked' }, validTo: { $gte: previousDay, $lte: targetDate } }\<close>\<close>
  "expiringInDaysFilter previousDay targetDate c =
     (status c \<noteq> Revoked \<and> previousDay \<le> validTo c \<and> validTo c \<le> targetDate)"

definition findCertificatesExpiringInDays ::
    "int \<Rightarrow> int \<Rightarrow> Certificate list \<Rightarrow> (nat \<times> Certificate) list" where
  \<comment> \<open>the documents found, each with its position in the collection\<close>
  "findCertificatesExpiringInDays now ds coll =
     (let targetDate = now + ds * 24 * 60 * 60 * 1000;
          previousDay = now + (ds - 1) * 24 * 60 * 60 * 1000
      in filter (\<lambda>ic. expiringInDaysFilter previousDay targetDate (snd ic)) (enumerate 0 coll))"

definition addEmail :: "string \<Rightarrow> string list \<Rightarrow> string list" where
  \<comment> \<open>\<^verbatim>\<open>emails.add(e)\<close> on a Set, which keeps insertion order\<close>
  "addEmail e emails = (if e \<in> set emails then emails else emails @ [e])"

definition resolveRecipient :: "User list \<Rightarrow> string list \<Rightarrow> Recipient \<Rightarrow> string list" where
  "resolveRecipient users emails r =
     (case rtype r of
        EmailRecipient \<Rightarrow> addEmail (rvalue r) emails
      | UserRecipient \<Rightarrow>
          (case find (\<lambda>u. username u = rvalue r) users of
             None \<Rightarrow> emails
           | Some u \<Rightarrow> if email u \<noteq> [] then addEmail (email u) emails else emails)
      | RoleRecipient \<Rightarrow>
          foldl (\<lambda>es u. if email u \<noteq> [] then addEmail (email u) es else es) emails
            (filter (\<lambda>u. rvalue r \<in> set (roles u)) users))"

definition resolveRecipients :: "User list \<Rightarrow> Recipient list \<Rightarrow> string list" where
  "resolveRecipients users rs = foldl (resolveRecipient users) [] rs"

fun joinWith :: "string \<Rightarrow> string list \<Rightarrow> string" where
  \<comment> \<open>\<^verbatim>\<open>xs.join(sep)\<close>\<close>
  "joinWith sep [] = []"
| "joinWith sep [x] = x"
| "joinWith sep (x # y # ys) = x @ sep @ joinWith sep (y # ys)"

text \<open>
  The schema of the certificate collection (Certificate.ts), as far as a document of the
  embedding can break it: the required string paths must not be empty, and the type of
  every notification record must be one of the six of the enumeration. The result lists
  the paths that fail. \<^verbatim>\<open>cert.save()\<close> validates the document and either writes it
  back or throws the validation error, printed here with the failing paths.
\<close>

definition NOTIFICATION_TYPES :: "string list" where
  "NOTIFICATION_TYPES = [''90day'', ''60day'', ''30day'', ''14day'', ''7day'', ''1day'']"

definition certificateSchemaErrors :: "Certificate \<Rightarrow> string list" where
  "certificateSchemaErrors c =
     (if serialNumber c = [] then [''serialNumber''] else [])
     @ (if thumbprint c = [] then [''thumbprint''] else [])
     @ (if commonName c = [] then [''commonName''] else [])
     @ (if issuer_commonName c = [] then [''issuer.commonName''] else [])
     @ (if subject_commonName c = [] then [''subject.commonName''] else [])
     @ (if list_ex (\<lambda>d. serverName d = []) (deployedTo c)
        then [''deployedTo.serverName''] else [])
     @ (if list_ex (\<lambda>n. ntype n \<notin> set NOTIFICATION_TYPES) (notificationsSent c)
        then [''notificationsSent.type''] else [])"

definition saveCertificate ::
    "Certificate list \<Rightarrow> nat \<Rightarrow> Certificate \<Rightarrow> string + Certificate list" where
  "saveCertificate coll i cert =
     (if certificateSchemaErrors cert = [] then Inr (coll[i := cert])
      else Inl (''ValidationError: Certificate validation failed: ''
                @ joinWith '', '' (certificateSchemaErrors cert)))"

text \<open>
  The body of the inner loop of \<^verbatim>\<open>sendExpirationNotifications\<close>, for one found
  document \<open>cert\<close> at position \<open>i\<close>. The send, the push of the record and the save are
  in one try block: when the save throws after the send returned, the catch block counts
  a failure, and the record pushed on the document in memory is not stored.
\<close>

definition notifyCert ::
    "mailer \<Rightarrow> int \<Rightarrow> int \<Rightarrow> string list \<Rightarrow> DispatchState \<Rightarrow> nat \<times> Certificate \<Rightarrow> DispatchState" where
  "notifyCert mail now ds rcpts st ic =
     (let i = fst ic; cert = snd ic;
          alreadySent = list_ex (\<lambda>n. ntype n = dayType ds) (notificationsSent cert)
      in if alreadySent then st
         else (case mail cert ds rcpts of
             Some e \<Rightarrow>
               st\<lparr>result := (result st)\<lparr>failed := failed (result st) + 1,
                     errors := errors (result st) @
                       [''Failed to send for '' @ commonName cert @ '': '' @ e]\<rparr>,
                  outbox := outbox st @ [\<lparr>certPos = i, forDays = ds, delivered = False\<rparr>]\<rparr>
           | None \<Rightarrow>
               (case saveCertificate (certs st) i
                       (cert\<lparr>notificationsSent := notificationsSent cert @
                          [\<lparr>ntype = dayType ds, sentAt = now,
                            NotificationSent.recipients = rcpts\<rparr>]\<rparr>) of
                  Inr coll \<Rightarrow>
                    st\<lparr>certs := coll,
                       result := (result st)\<lparr>sent := sent (result st) + 1\<rparr>,
                       outbox := outbox st @ [\<lparr>certPos = i, forDays = ds, delivered = True\<rparr>]\<rparr>
                | Inl e \<Rightarrow>
                    st\<lparr>result := (result st)\<lparr>failed := failed (result st) + 1,
                          errors := errors (result st) @
                            [''Failed to send for '' @ commonName cert @ '': '' @ e]\<rparr>,
                       outbox := outbox st @ [\<lparr>certPos = i, forDays = ds, delivered = True\<rparr>]\<rparr>)))"

definition notifyThreshold ::
    "mailer \<Rightarrow> int \<Rightarrow> string list \<Rightarrow> DispatchState \<Rightarrow> int \<Rightarrow> DispatchState" where
  \<comment> \<open>one round of the outer loop: the query, then the inner loop over what it found\<close>
  "notifyThreshold mail now rcpts st ds =
     foldl (notifyCert mail now ds rcpts) st (findCertificatesExpiringInDays now ds (certs st))"

definition sendExpirationNotifications ::
    "mailer \<Rightarrow> int \<Rightarrow> NotificationSettings option \<Rightarrow> User list \<Rightarrow> Certificate list
      \<Rightarrow> DispatchState" where
  "sendExpirationNotifications mail now settings users coll =
     (let st0 = \<lparr>certs = coll,
                 result = \<lparr>success = True, sent = 0, failed = 0, errors = []\<rparr>,
                 outbox = []\<rparr>
      in case settings of
           None \<Rightarrow> st0
         | Some s \<Rightarrow>
             if \<not> NotificationSettings.enabled s then st0
             else
               let enabledThresholds =
                     rev (sort (map days (filter Threshold.enabled (thresholds s))))
               in if enabledThresholds = [] then st0
                  else
                    let rcpts = resolveRecipients users (NotificationSettings.recipients s)
                    in if rcpts = [] then st0
                       else foldl (notifyThreshold mail now rcpts) st0 enabledThresholds)"

text \<open>
  The view of a run from one document: what the rounds of the outer loop do to the
  document at a position, and the calls of the mailer they make for it. These are used
  to state and prove the properties; the dispatcher itself is defined above.
\<close>

definition alreadySentFor :: "int \<Rightarrow> Certificate \<Rightarrow> bool" where
  "alreadySentFor ds c = list_ex (\<lambda>n. ntype n = dayType ds) (notificationsSent c)"

definition recordSent :: "int \<Rightarrow> int \<Rightarrow> string list \<Rightarrow> Certificate \<Rightarrow> Certificate" where
  "recordSent now ds rcpts c =
     c\<lparr>notificationsSent := notificationsSent c @
          [\<lparr>ntype = dayType ds, sentAt = now, NotificationSent.recipients = rcpts\<rparr>]\<rparr>"

definition stepDoc :: "mailer \<Rightarrow> int \<Rightarrow> int \<Rightarrow> string list \<Rightarrow> Certificate \<Rightarrow> Certificate" where
  "stepDoc mail now ds rcpts c =
     (if \<not> alreadySentFor ds c \<and> mail c ds rcpts = None
         \<and> certificateSchemaErrors (recordSent now ds rcpts c) = []
      then recordSent now ds rcpts c else c)"

definition stepBox :: "mailer \<Rightarrow> int \<Rightarrow> string list \<Rightarrow> nat \<Rightarrow> Certificate \<Rightarrow> SendAttempt list" where
  "stepBox mail ds rcpts i c =
     (if alreadySentFor ds c then []
      else [\<lparr>certPos = i, forDays = ds, delivered = (mail c ds rcpts = None)\<rparr>])"

definition inWindow :: "int \<Rightarrow> int \<Rightarrow> Certificate \<Rightarrow> bool" where
  "inWindow now ds c =
     expiringInDaysFilter (now + (ds - 1) * 24 * 60 * 60 * 1000) (now + ds * 24 * 60 * 60 * 1000) c"

definition docStep :: "mailer \<Rightarrow> int \<Rightarrow> string list \<Rightarrow> Certificate \<Rightarrow> int \<Rightarrow> Certificate" where
  "docStep mail now rcpts c ds = (if inWindow now ds c then stepDoc mail now ds rcpts c else c)"

definition boxStep :: "mailer \<Rightarrow> int \<Rightarrow> string list \<Rightarrow> nat \<Rightarrow> Certificate \<Rightarrow> int \<Rightarrow> SendAttempt list" where
  "boxStep mail now rcpts i c ds = (if inWindow now ds c then stepBox mail ds rcpts i c else [])"

fun boxRun :: "mailer \<Rightarrow> int \<Rightarrow> string list \<Rightarrow> nat \<Rightarrow> Certificate \<Rightarrow> int list \<Rightarrow> SendAttempt list" where
  "boxRun mail now rcpts i c [] = []"
| "boxRun mail now rcpts i c (ds # dss) =
     boxStep mail now rcpts i c ds @ boxRun mail now rcpts i (docStep mail now rcpts c ds) dss"

definition initialState :: "Certificate list \<Rightarrow> DispatchState" where
  "initialState coll =
     \<lparr>certs = coll, result = \<lparr>success = True, sent = 0, failed = 0, errors = []\<rparr>, outbox = []\<rparr>"

definition sampleSettings :: NotificationSettings where
  "sampleSettings =
     \<lparr>enabled = True,
      thresholds = [\<lparr>days = 7, enabled = True\<rparr>, \<lparr>days = 30, enabled = True\<rparr>,
                    \<lparr>days = 1, enabled = False\<rparr>],
      recipients = [\<lparr>rtype = EmailRecipient, rvalue = ''pki@example.com''\<rparr>]\<rparr>"

definition customSettings :: NotificationSettings where
  \<comment> \<open>settings as the settings endpoint stores them, with one threshold of 45 days\<close>
  "customSettings =
     \<lparr>enabled = True,
      thresholds = [\<lparr>days = 45, enabled = True\<rparr>],
      recipients = [\<lparr>rtype = EmailRecipient, rvalue = ''pki@example.com''\<rparr>]\<rparr>"


definition reliableMailer :: mailer where
  \<comment> \<open>a mail transport that accepts every message\<close>
  "reliableMailer c ds rcpts = None"
section \<open>The command gateway (powershellService.ts)\<close>

text \<open>
  The service as it stands after the allow-list was added (the file also survives in an
  earlier revision without it). A string is a list of characters; \<open>squote\<close> is the
  single quote.
\<close>

abbreviation squote :: char where
  "squote \<equiv> CHR 0x27"

record PowerShellResult =
  success :: bool
  output' :: string
  error :: "string option"

text \<open>
  A parameter value is a string, a number or a boolean. The gateway only asks of a number
  whether it is finite and, if so, prints it: a finite number is given by the text that
  JavaScript's number-to-string conversion prints for it (\<open>Finite ''443''\<close>,
  \<open>Finite ''1e+21''\<close>, \<open>Finite ''0.5''\<close>); the other three values are those that
  \<^verbatim>\<open>Number.isFinite\<close> rejects.
\<close>

datatype js_number = Finite string | NaN | PosInfinity | NegInfinity

datatype param_value = PString string | PNumber js_number | PBool bool

record PowerShellOptions =
  script :: "string option"
  scriptFile :: "string option"
  parameters :: "(string \<times> param_value) list"
  timeout :: "nat option"
  remoteComputer :: "string option"

text \<open>
  What the operating system answers to \<^verbatim>\<open>spawn\<close>: the process closes with an exit
  code (\<open>None\<close> when it was killed), its standard output and its standard error, or the
  spawn itself fails with a message.
\<close>

datatype proc_outcome = Closed "int option" string string | SpawnError string

record SpawnCall =
  program :: string
  args :: "string list"
  timeoutMs :: nat

text \<open>
  The host of the gateway: the scripts directory, the two functions of Node's
  \<^verbatim>\<open>path\<close> module that the gateway calls, the string method
  \<^verbatim>\<open>String.prototype.trim\<close> of the JavaScript runtime, and the operating system's
  answer to a spawn. None of them is code of the repository; they are parameters.
\<close>

record GatewayEnv =
  scriptsDir :: string
  pathJoin :: "string \<Rightarrow> string \<Rightarrow> string"
  pathResolve :: "string \<Rightarrow> string"
  stringTrim :: "string \<Rightarrow> string"
  spawnProcess :: "SpawnCall \<Rightarrow> proc_outcome"

definition ALLOWED_SCRIPTS :: "string list" where
  "ALLOWED_SCRIPTS =
     [''Bind-IISCertificate.ps1'', ''Get-CAInfo.ps1'', ''Get-IssuedCertificates.ps1'',
      ''Install-Certificate.ps1'', ''New-CertificateRequest.ps1'',
      ''Submit-CertificateRequest.ps1'']"

definition sanitizePSString :: "string \<Rightarrow> string" where
  \<comment> \<open>\<^verbatim>\<open>value.replace(/'/g, "''")\<close>\<close>
  "sanitizePSString v = concat (map (\<lambda>c. if c = squote then [squote, squote] else [c]) v)"

definition alnumChars :: string where
  "alnumChars = ''abcdefghijklmnopqrstuvwxyzABCDEFGHIJKLMNOPQRSTUVWXYZ0123456789''"

definition alphaChars :: string where
  "alphaChars = ''abcdefghijklmnopqrstuvwxyzABCDEFGHIJKLMNOPQRSTUVWXYZ''"

definition validateHostname :: "string \<Rightarrow> bool" where
  \<comment> \<open>\<^verbatim>\<open>/^[a-zA-Z0-9._-]+$/\<close>, at most 253 characters\<close>
  "validateHostname hostname =
     (hostname \<noteq> [] \<and> list_all (\<lambda>c. c \<in> set (alnumChars @ ''._-'')) hostname
      \<and> length hostname \<le> 253)"


definition safeParamKey :: "string \<Rightarrow> bool" where
  \<comment> \<open>\<^verbatim>\<open>SAFE_PARAM_KEY_REGEX = /^[a-zA-Z][a-zA-Z0-9]*$/\<close>\<close>
  "safeParamKey key =
     (case key of [] \<Rightarrow> False
      | c # cs \<Rightarrow> c \<in> set alphaChars \<and> list_all (\<lambda>c. c \<in> set alnumChars) cs)"

definition truthy :: "string option \<Rightarrow> bool" where
  \<comment> \<open>an optional string in a condition: absent and empty are both false\<close>
  "truthy v = (case v of None \<Rightarrow> False | Some s \<Rightarrow> s \<noteq> [])"

definition startsWith :: "string \<Rightarrow> string \<Rightarrow> bool" where
  "startsWith s p = (take (length p) s = p)"

text \<open>
  One entry of \<^verbatim>\<open>Object.entries(parameters)\<close>: its text on the command line, or
  the message of the error thrown.
\<close>

definition paramString :: "string \<times> param_value \<Rightarrow> string + string" where
  "paramString kv =
     (let key = fst kv; val = snd kv
      in if \<not> safeParamKey key then Inl (''Invalid parameter key: '' @ key)
         else (case val of
             PBool b \<Rightarrow> Inr (if b then ''-'' @ key else [])
           | PNumber n \<Rightarrow>
               (case n of
                  Finite printed \<Rightarrow> Inr (''-'' @ key @ '' '' @ printed)
                | _ \<Rightarrow> Inl (''Invalid numeric parameter: '' @ key))
           | PString v \<Rightarrow> Inr (''-'' @ key @ '' '' @ [squote] @ sanitizePSString v @ [squote])))"

fun paramStringsOf :: "(string \<times> param_value) list \<Rightarrow> string + string list" where
  \<comment> \<open>the \<^verbatim>\<open>map\<close> over the entries, which stops at the first throw\<close>
  "paramStringsOf [] = Inr []"
| "paramStringsOf (kv # kvs) =
     (case paramString kv of
        Inl e \<Rightarrow> Inl e
      | Inr p \<Rightarrow> (case paramStringsOf kvs of Inl e \<Rightarrow> Inl e | Inr ps \<Rightarrow> Inr (p # ps)))"

definition failure :: "string \<Rightarrow> PowerShellResult" where
  "failure msg = \<lparr>success = False, output' = [], error = Some msg\<rparr>"

definition runProcess :: "GatewayEnv \<Rightarrow> nat \<Rightarrow> string \<Rightarrow> (string + PowerShellResult) \<times> SpawnCall list" where
  \<comment> \<open>\<^verbatim>\<open>spawn('powershell.exe', args, ...)\<close> and the handlers of its events\<close>
  "runProcess env tmo command =
     (let call = \<lparr>program = ''powershell.exe'',
                  args = [''-NoProfile'', ''-NonInteractive'', ''-ExecutionPolicy'', ''Bypass'',
                          ''-Command'', command],
                  timeoutMs = tmo\<rparr>
      in (case spawnProcess env call of
            Closed code stdout stderr \<Rightarrow>
              if code = Some 0
              then Inr \<lparr>success = True, output' = stringTrim env stdout, error = None\<rparr>
              else Inr \<lparr>success = False, output' = stringTrim env stdout,
                        error = Some (stringTrim env stderr)\<rparr>
          | SpawnError msg \<Rightarrow> Inr (failure msg),
          [call]))"

text \<open>
  \<^verbatim>\<open>executePowerShell(options)\<close>. The result is the settled promise (\<open>Inl\<close> the
  message of the error it rejects with, \<open>Inr\<close> the value it resolves to) and the list of
  the processes spawned.
\<close>

definition executePowerShell ::
    "GatewayEnv \<Rightarrow> PowerShellOptions \<Rightarrow> (string + PowerShellResult) \<times> SpawnCall list" where
  "executePowerShell env options =
     (let tmo = (case timeout options of None \<Rightarrow> 60000 | Some t \<Rightarrow> t);
          wrapped = (\<lambda>command.
            case paramStringsOf (parameters options) of
              Inl e \<Rightarrow> (Inl e, [])
            | Inr ps \<Rightarrow>
                let paramStrings = filter (\<lambda>p. p \<noteq> []) ps;
                    command1 = (if paramStrings \<noteq> []
                                then command @ '' '' @ joinWith '' '' paramStrings else command)
                in if truthy (remoteComputer options)
                   then if \<not> validateHostname (the (remoteComputer options))
                        then (Inr (failure ''Invalid remote computer name''), [])
                        else runProcess env tmo
                               (''Invoke-Command -ComputerName '' @ [squote]
                                @ sanitizePSString (the (remoteComputer options)) @ [squote]
                                @ '' -ScriptBlock { '' @ command1 @ '' }'')
                   else runProcess env tmo command1)
      in if truthy (scriptFile options)
         then if the (scriptFile options) \<notin> set ALLOWED_SCRIPTS
              then (Inr (failure (''Script not allowed: '' @ the (scriptFile options))), [])
              else
                let fullPath = pathJoin env (scriptsDir env) (the (scriptFile options));
                    resolvedPath = pathResolve env fullPath;
                    resolvedScriptsDir = pathResolve env (scriptsDir env)
                in if \<not> startsWith resolvedPath resolvedScriptsDir
                   then (Inr (failure ''Invalid script path''), [])
                   else wrapped (''& '' @ [squote] @ sanitizePSString fullPath @ [squote])
         else if truthy (script options) then wrapped (the (script options))
         else (Inr (failure ''No script or scriptFile provided''), []))"

text \<open>
  Modelled from the spec: the target shell is not part of the repository. Its reading of
  a single-quoted literal follows the comment on \<^verbatim>\<open>sanitizePSString\<close> ("in PS
  single-quoted strings, the only escape is '' for a literal single quote") and the
  spec's escaping contract: the literal opens with a single quote, a doubled single quote
  inside stands for one single quote, any other character stands for itself, and the
  first single quote that is not doubled closes the literal. \<open>psLiteral\<close> reads one
  literal at the head of the input and returns its value and the rest of the input.
\<close>

fun psLiteralBody :: "string \<Rightarrow> (string \<times> string) option" where
  "psLiteralBody [] = None"
| "psLiteralBody [c] = (if c = squote then Some ([], []) else None)"
| "psLiteralBody (c # d # cs) =
     (if c = squote
      then if d = squote
           then map_option (\<lambda>r. (squote # fst r, snd r)) (psLiteralBody cs)
           else Some ([], d # cs)
      else map_option (\<lambda>r. (c # fst r, snd r)) (psLiteralBody (d # cs)))"

definition psLiteral :: "string \<Rightarrow> (string \<times> string) option" where
  "psLiteral s = (case s of [] \<Rightarrow> None | c # cs \<Rightarrow> if c = squote then psLiteralBody cs else None)"

text \<open>
  The parameter part of a command line: every non-empty parameter text, each after a
  space. This is what the gateway appends to the command, written without the join.
\<close>

definition spaced :: "string list \<Rightarrow> string" where
  "spaced ps = concat (map (\<lambda>p. '' '' @ p) (filter (\<lambda>p. p \<noteq> []) ps))"

text \<open>
  A host for running the gateway on concrete inputs: every process prints \<open>ok\<close> and
  exits 0. Its trim strips the six ASCII white-space characters, which is what
  \<^verbatim>\<open>String.prototype.trim\<close> does on a text without other white space.
\<close>

definition isSpace :: "char \<Rightarrow> bool" where
  "isSpace c = (c \<in> set [CHR 0x20, CHR 0x09, CHR 0x0A, CHR 0x0B, CHR 0x0C, CHR 0x0D])"

definition trim :: "string \<Rightarrow> string" where
  "trim s = rev (dropWhile isSpace (rev (dropWhile isSpace s)))"

definition sampleEnv :: GatewayEnv where
  "sampleEnv =
     \<lparr>scriptsDir = ''/app/scripts'',
      pathJoin = (\<lambda>d f. d @ ''/'' @ f),
      pathResolve = (\<lambda>p. p),
      stringTrim = trim,
      spawnProcess = (\<lambda>call. Closed (Some 0) ''ok'' [])\<rparr>"



section \<open>The CSR workflow engine (csrController.ts)\<close>

text \<open>
  The controller's handlers, each as a function from the document store to the HTTP
  response and the store after the call; the handlers that reach the gateway also return
  the processes spawned. Documents are looked up by id in a map. Creating or saving a
  document validates it against the schema of the collection (CSRRequest.ts) and throws
  when it does not conform; the error lands in the catch block of the handler, which
  answers 500.
\<close>

datatype csr_status = Draft | Pending | Submitted | Issued | Failed | Cancelled

datatype step_status = StepPending | StepCompleted | StepFailed

record WorkflowStep =
  step :: string
  status :: step_status
  completedAt :: "int option"
  error :: "string option"

record Subject =
  organization :: "string option"
  organizationalUnit :: "string option"
  locality :: "string option"
  state :: "string option"
  country :: "string option"

record Server =
  hostname :: string
  fqdn :: string

record CertificateAuthority =
  name :: string
  configString :: string

text \<open>
  The body of a create or update request: every field may be absent (\<open>undefined\<close>).
\<close>

record CSRBody =
  commonName :: "string option"
  subjectAlternativeNames :: "string list option"
  subject :: "Subject option"
  keySize :: "int option"
  keyAlgorithm :: "string option"
  hashAlgorithm :: "string option"
  templateName :: "string option"
  targetCAId :: "nat option"
  targetServerId :: "nat option"

record CSRRequest =
  commonName :: string
  subjectAlternativeNames :: "string list"
  subject :: Subject
  keySize :: int
  keyAlgorithm :: string
  hashAlgorithm :: string
  templateName :: "string option"
  targetCAId :: "nat option"
  targetServerId :: "nat option"
  status :: csr_status
  csrPEM :: "string option"
  privateKeyLocation :: "string option"
  requestedBy :: string
  requestedAt :: int
  processedAt :: "int option"
  errorMessage :: "string option"
  workflowSteps :: "WorkflowStep list"

record Db =
  csrs :: "nat \<rightharpoonup> CSRRequest"
  servers :: "nat \<rightharpoonup> Server"
  cas :: "nat \<rightharpoonup> CertificateAuthority"

datatype resp_body =
    ErrorBody string "string option"
  | MessageBody string "string option"
  | CsrBody CSRRequest

type_synonym response = "nat \<times> resp_body"




definition VALID_KEY_SIZES :: "int list" where
  "VALID_KEY_SIZES = [2048, 4096]"

definition validateSubjectField :: "string \<Rightarrow> bool" where
  \<comment> \<open>\<^verbatim>\<open>SAFE_SUBJECT_REGEX = /^[a-zA-Z0-9 .,_@()-]+$/\<close>, at most 200 characters\<close>
  "validateSubjectField v =
     (v \<noteq> [] \<and> list_all (\<lambda>c. c \<in> set (alnumChars @ '' .,_@()-'')) v \<and> length v \<le> 200)"

definition validateSAN :: "string \<Rightarrow> bool" where
  \<comment> \<open>\<^verbatim>\<open>/^[a-zA-Z0-9.*@_-]+(\.[a-zA-Z0-9*_-]+)*$/\<close>, at most 253 characters. The first
      class contains the dot and every character of the second, so the strings matched
      are the non-empty strings over the first class.\<close>
  "validateSAN san =
     (san \<noteq> [] \<and> list_all (\<lambda>c. c \<in> set (alnumChars @ ''.*@_-'')) san \<and> length san \<le> 253)"

fun updateFirst :: "('a \<Rightarrow> bool) \<Rightarrow> ('a \<Rightarrow> 'a) \<Rightarrow> 'a list \<Rightarrow> 'a list" where
  \<comment> \<open>\<^verbatim>\<open>xs.find(p)\<close> and a change of the element found, in place\<close>
  "updateFirst p f [] = []"
| "updateFirst p f (x # xs) = (if p x then f x # xs else x # updateFirst p f xs)"

definition markStep :: "int \<Rightarrow> step_status \<Rightarrow> string option \<Rightarrow> WorkflowStep \<Rightarrow> WorkflowStep" where
  \<comment> \<open>what \<^verbatim>\<open>updateWorkflowStep\<close> does to the step it found\<close>
  "markStep now st err s =
     (let s1 = s\<lparr>WorkflowStep.status := st\<rparr>;
          s2 = (if st = StepCompleted then s1\<lparr>completedAt := Some now\<rparr> else s1)
      in if truthy err then s2\<lparr>error := err\<rparr> else s2)"

definition updateWorkflowStep ::
    "int \<Rightarrow> string \<Rightarrow> step_status \<Rightarrow> string option \<Rightarrow> CSRRequest \<Rightarrow> CSRRequest" where
  "updateWorkflowStep now stepName st err csr =
     csr\<lparr>workflowSteps :=
       updateFirst (\<lambda>s. step s = stepName) (markStep now st err) (workflowSteps csr)\<rparr>"










definition applyAllowedFields :: "CSRBody \<Rightarrow> CSRRequest \<Rightarrow> CSRRequest" where
  \<comment> \<open>the loop over \<^verbatim>\<open>allowedFields\<close>: a field of the body that is not undefined is assigned\<close>
  "applyAllowedFields b csr =
     csr\<lparr>commonName := (case CSRBody.commonName b of None \<Rightarrow> commonName csr | Some v \<Rightarrow> v),
         subjectAlternativeNames :=
           (case CSRBody.subjectAlternativeNames b of
              None \<Rightarrow> subjectAlternativeNames csr | Some v \<Rightarrow> v),
         subject := (case CSRBody.subject b of None \<Rightarrow> subject csr | Some v \<Rightarrow> v),
         keySize := (case CSRBody.keySize b of None \<Rightarrow> keySize csr | Some v \<Rightarrow> v),
         keyAlgorithm := (case CSRBody.keyAlgorithm b of None \<Rightarrow> keyAlgorithm csr | Some v \<Rightarrow> v),
         hashAlgorithm :=
           (case CSRBody.hashAlgorithm b of None \<Rightarrow> hashAlgorithm csr | Some v \<Rightarrow> v),
         templateName :=
           (case CSRBody.templateName b of None \<Rightarrow> templateName csr | Some v \<Rightarrow> Some v),
         targetCAId := (case CSRBody.targetCAId b of None \<Rightarrow> targetCAId csr | Some v \<Rightarrow> Some v),
         targetServerId :=
           (case CSRBody.targetServerId b of None \<Rightarrow> targetServerId csr | Some v \<Rightarrow> Some v)\<rparr>"


definition deleteCSR :: "Db \<Rightarrow> nat \<Rightarrow> response \<times> Db" where
  "deleteCSR db csrId =
     (case csrs db csrId of
        None \<Rightarrow> ((404, ErrorBody ''CSR request not found'' None), db)
      | Some csr \<Rightarrow>
          if status csr = Submitted
          then ((400, ErrorBody ''Cannot delete submitted CSR'' None), db)
          else ((200, MessageBody ''CSR request deleted'' None), db\<lparr>csrs := (csrs db)(csrId := None)\<rparr>))"

definition invalidSubjectField :: "Subject \<Rightarrow> string option" where
  \<comment> \<open>the loop over \<^verbatim>\<open>subjectFields\<close>: the first field that is set and fails the check\<close>
  "invalidSubjectField sub =
     map_option fst
       (find (\<lambda>fv. truthy (snd fv) \<and> \<not> validateSubjectField (the (snd fv)))
          [(''organization'', organization sub),
           (''organizationalUnit'', organizationalUnit sub),
           (''locality'', locality sub),
           (''state'', state sub),
           (''country'', country sub)])"












definition generateStep :: "CSRRequest \<Rightarrow> WorkflowStep option" where
  "generateStep csr = find (\<lambda>s. step s = ''Generate CSR'') (workflowSteps csr)"

definition generateCompleted :: "CSRRequest \<Rightarrow> bool" where
  "generateCompleted csr =
     (case generateStep csr of None \<Rightarrow> False | Some s \<Rightarrow> WorkflowStep.status s = StepCompleted)"






text \<open>A draft document as \<^verbatim>\<open>createCSR\<close> stores it, for concrete runs.\<close>

definition sampleCsr :: CSRRequest where
  "sampleCsr =
     \<lparr>commonName = ''test.example.com'', subjectAlternativeNames = [],
      subject = \<lparr>organization = None, organizationalUnit = None, locality = None,
                 state = None, country = None\<rparr>,
      keySize = 2048, keyAlgorithm = ''RSA'', hashAlgorithm = ''SHA256'',
      templateName = None, targetCAId = None, targetServerId = None,
      status = Draft, csrPEM = None, privateKeyLocation = None,
      requestedBy = ''alice'', requestedAt = 5, processedAt = None, errorMessage = None,
      workflowSteps =
        [\<lparr>step = ''Generate CSR'', status = StepPending, completedAt = None, error = None\<rparr>,
         \<lparr>step = ''Submit to CA'', status = StepPending, completedAt = None, error = None\<rparr>,
         \<lparr>step = ''Install Certificate'', status = StepPending, completedAt = None,
           error = None\<rparr>]\<rparr>"

definition dbWith :: "CSRRequest \<Rightarrow> Db" where
  \<comment> \<open>a store holding one CSR document, under id 1\<close>
  "dbWith csr = \<lparr>csrs = [1 \<mapsto> csr], servers = Map.empty, cas = Map.empty\<rparr>"

section \<open>Properties of the status reconciler\<close>

lemma updateMany_fst: "fst (updateMany flt upd coll) = map (\<lambda>d. if flt d then upd d else d) coll"
  by (simp add: updateMany_def)

lemma updateMany_length: "length (fst (updateMany flt upd coll)) = length coll"
  by (simp add: updateMany_def)

lemma updateMany_none:
  assumes "\<And>d. d \<in> set coll \<Longrightarrow> \<not> flt d"
  shows "updateMany flt upd coll = (coll, 0)"
proof -
  have "map (\<lambda>d. if flt d then upd d else d) coll = coll"
    using assms by (induction coll) auto
  moreover have "filter (\<lambda>d. flt d \<and> upd d \<noteq> d) coll = []"
    using assms by (induction coll) auto
  ultimately show ?thesis by (simp add: updateMany_def)
qed

lemma updateCertificateStatuses_fst:
  "fst (updateCertificateStatuses now coll) = map (reconcileOne now) coll"
  by (simp add: updateCertificateStatuses_def reconcileOne_def Let_def updateMany_fst o_def)

lemma updateCertificateStatuses_length:
  "length (fst (updateCertificateStatuses now coll)) = length coll"
  by (simp add: updateCertificateStatuses_fst)

lemma reconcileOne_settled: "settled now (reconcileOne now c)"
  by (cases "Certificate.status c")
     (auto simp: settled_def reconcileOne_def expiredFilter_def expiringFilter_def
        activeFilter_def setStatus_def Let_def)

lemma settled_no_update:
  assumes "\<And>c. c \<in> set coll \<Longrightarrow> settled now c"
  shows "updateCertificateStatuses now coll = (coll, 0)"
proof -
  have 1: "updateMany (expiredFilter now) upd coll = (coll, 0)" for upd
    by (rule updateMany_none) (use assms in \<open>auto simp: settled_def\<close>)
  have 2: "updateMany (expiringFilter now (now + 30 * 24 * 60 * 60 * 1000)) upd coll = (coll, 0)"
    for upd
    by (rule updateMany_none) (use assms in \<open>auto simp: settled_def\<close>)
  have 3: "updateMany (activeFilter (now + 30 * 24 * 60 * 60 * 1000)) upd coll = (coll, 0)"
    for upd
    by (rule updateMany_none) (use assms in \<open>auto simp: settled_def\<close>)
  show ?thesis
    unfolding updateCertificateStatuses_def Let_def 1 fst_conv snd_conv 2 3 by simp
qed

text \<open>
  C6. Running the three-phase reconciliation twice at the same instant: the second run
  modifies no document, so its returned count is 0 (and the collection stays as the first
  run left it).
\<close>

theorem reconcile_twice_no_mutation:
  "updateCertificateStatuses now (fst (updateCertificateStatuses now coll))
     = (fst (updateCertificateStatuses now coll), 0)"
proof (rule settled_no_update)
  fix c assume "c \<in> set (fst (updateCertificateStatuses now coll))"
  then obtain c0 where "c = reconcileOne now c0"
    by (auto simp: updateCertificateStatuses_fst)
  then show "settled now c"
    by (simp add: reconcileOne_settled)
qed

text \<open>
  C7, as stated, fails in its second half: not every certificate whose validTo is \<open>now\<close>
  + 30 days + 1 second is active after the run. The third phase only matches status
  expiring, and no phase matches expired or revoked: an expired and a revoked certificate
  with that validTo keep their status.
\<close>

theorem boundary_any_status_counterexample:
  "validTo (sampleCert ''04'' 2592002000 Expired) = 1000 + 30 * 24 * 60 * 60 * 1000 + 1000
   \<and> map Certificate.status (fst (updateCertificateStatuses 1000
         [sampleCert ''04'' 2592002000 Expired, sampleCert ''05'' 2592002000 Revoked]))
       = [Expired, Revoked]"
  by (simp add: updateCertificateStatuses_fst reconcileOne_def expiredFilter_def
        expiringFilter_def activeFilter_def setStatus_def sampleCert_def Let_def)

text \<open>
  C7, amended. The 30-day boundary is inclusive. In a run at \<open>now\<close>, an active
  certificate whose validTo is exactly \<open>now\<close> + 30 days is classified expiring; a
  certificate whose validTo is \<open>now\<close> + 30 days + 1 second (1000 ms) remains active when
  it was active and becomes active when it was expiring; an expired or revoked
  certificate with that validTo keeps its status.
\<close>

theorem expiring_boundary_inclusive:
  assumes "i < length coll"
  shows "(Certificate.status (coll ! i) = Active \<and> validTo (coll ! i) = now + 30 * 24 * 60 * 60 * 1000
            \<longrightarrow> Certificate.status (fst (updateCertificateStatuses now coll) ! i) = Expiring)
       \<and> ((Certificate.status (coll ! i) = Active \<or> Certificate.status (coll ! i) = Expiring)
            \<and> validTo (coll ! i) = now + 30 * 24 * 60 * 60 * 1000 + 1000
            \<longrightarrow> Certificate.status (fst (updateCertificateStatuses now coll) ! i) = Active)
       \<and> ((Certificate.status (coll ! i) = Expired \<or> Certificate.status (coll ! i) = Revoked)
            \<and> validTo (coll ! i) = now + 30 * 24 * 60 * 60 * 1000 + 1000
            \<longrightarrow> fst (updateCertificateStatuses now coll) ! i = coll ! i)"
  using assms
  by (auto simp: updateCertificateStatuses_fst reconcileOne_def expiredFilter_def
        expiringFilter_def activeFilter_def setStatus_def Let_def)

theorem expiring_boundary_inclusive_witness:
  "Certificate.status ([sampleCert ''01'' 2592001000 Active, sampleCert ''02'' 2592002000 Active,
            sampleCert ''03'' 2592002000 Expiring, sampleCert ''04'' 2592002000 Expired] ! 0) = Active
   \<and> validTo ([sampleCert ''01'' 2592001000 Active, sampleCert ''02'' 2592002000 Active,
            sampleCert ''03'' 2592002000 Expiring, sampleCert ''04'' 2592002000 Expired] ! 0)
       = 1000 + 30 * 24 * 60 * 60 * 1000
   \<and> Certificate.status (fst (updateCertificateStatuses 1000
        [sampleCert ''01'' 2592001000 Active, sampleCert ''02'' 2592002000 Active,
         sampleCert ''03'' 2592002000 Expiring, sampleCert ''04'' 2592002000 Expired]) ! 0) = Expiring
   \<and> Certificate.status (fst (updateCertificateStatuses 1000
        [sampleCert ''01'' 2592001000 Active, sampleCert ''02'' 2592002000 Active,
         sampleCert ''03'' 2592002000 Expiring, sampleCert ''04'' 2592002000 Expired]) ! 1) = Active
   \<and> Certificate.status (fst (updateCertificateStatuses 1000
        [sampleCert ''01'' 2592001000 Active, sampleCert ''02'' 2592002000 Active,
         sampleCert ''03'' 2592002000 Expiring, sampleCert ''04'' 2592002000 Expired]) ! 2) = Active
   \<and> fst (updateCertificateStatuses 1000
        [sampleCert ''01'' 2592001000 Active, sampleCert ''02'' 2592002000 Active,
         sampleCert ''03'' 2592002000 Expiring, sampleCert ''04'' 2592002000 Expired]) ! 3
       = sampleCert ''04'' 2592002000 Expired"
proof -
  let ?coll = "[sampleCert ''01'' 2592001000 Active, sampleCert ''02'' 2592002000 Active,
                sampleCert ''03'' 2592002000 Expiring, sampleCert ''04'' 2592002000 Expired]"
  have len: "0 < length ?coll" "1 < length ?coll" "2 < length ?coll" "3 < length ?coll"
    by simp_all
  show ?thesis
    using expiring_boundary_inclusive [OF len(1), of 1000]
      expiring_boundary_inclusive [OF len(2), of 1000]
      expiring_boundary_inclusive [OF len(3), of 1000]
      expiring_boundary_inclusive [OF len(4), of 1000]
    by (simp add: sampleCert_def)
qed

lemma reconcileOne_revoked: "Certificate.status c = Revoked \<Longrightarrow> reconcileOne now c = c"
  by (simp add: reconcileOne_def expiredFilter_def expiringFilter_def activeFilter_def Let_def)

text \<open>
  C9. Revoked is sticky under reconciliation: a revoked certificate matches none of the
  three phase filters (whatever the instants they are given), and after any number of
  runs, at any instants \<open>nows\<close>, its document is the one it was, so still revoked.
\<close>

theorem revoked_is_sticky:
  assumes "i < length coll" and "Certificate.status (coll ! i) = Revoked"
  shows "\<not> expiredFilter now (coll ! i) \<and> \<not> expiringFilter now in30Days (coll ! i)
         \<and> \<not> activeFilter in30Days (coll ! i)
         \<and> foldl (\<lambda>c t. fst (updateCertificateStatuses t c)) coll nows ! i = coll ! i
         \<and> Certificate.status (foldl (\<lambda>c t. fst (updateCertificateStatuses t c)) coll nows ! i) = Revoked"
proof -
  have "foldl (\<lambda>c t. fst (updateCertificateStatuses t c)) coll nows ! i = coll ! i"
    using assms
  proof (induction nows arbitrary: coll)
    case Nil
    then show ?case by simp
  next
    case (Cons n ns)
    have "fst (updateCertificateStatuses n coll) ! i = coll ! i"
      using Cons.prems by (simp add: updateCertificateStatuses_fst reconcileOne_revoked)
    moreover have "i < length (fst (updateCertificateStatuses n coll))"
      using Cons.prems by (simp add: updateCertificateStatuses_length)
    ultimately show ?case
      using Cons.IH [of "fst (updateCertificateStatuses n coll)"] Cons.prems by simp
  qed
  then show ?thesis
    using assms by (simp add: expiredFilter_def expiringFilter_def activeFilter_def)
qed

theorem revoked_is_sticky_witness:
  "0 < length [sampleCert ''01'' 5000 Revoked, sampleCert ''02'' 5000 Active]
   \<and> Certificate.status ([sampleCert ''01'' 5000 Revoked, sampleCert ''02'' 5000 Active] ! 0) = Revoked
   \<and> Certificate.status (foldl (\<lambda>c t. fst (updateCertificateStatuses t c))
        [sampleCert ''01'' 5000 Revoked, sampleCert ''02'' 5000 Active] [1000, 9000] ! 0) = Revoked"
proof -
  have h1: "0 < length [sampleCert ''01'' 5000 Revoked, sampleCert ''02'' 5000 Active]"
    by simp
  have h2: "Certificate.status ([sampleCert ''01'' 5000 Revoked, sampleCert ''02'' 5000 Active] ! 0) = Revoked"
    by (simp add: sampleCert_def)
  show ?thesis
    using h1 h2 revoked_is_sticky [OF h1 h2, of 0 0 "[1000, 9000]"] by simp
qed

section \<open>Properties of the notification dispatcher\<close>

lemma notifyCert_certs:
  "certs (notifyCert mail now ds rcpts st (i, c)) =
     (if \<not> alreadySentFor ds c \<and> mail c ds rcpts = None
         \<and> certificateSchemaErrors (recordSent now ds rcpts c) = []
      then (certs st)[i := recordSent now ds rcpts c] else certs st)"
  by (simp add: notifyCert_def Let_def alreadySentFor_def recordSent_def saveCertificate_def
        split: option.splits)

lemma notifyCert_outbox:
  "outbox (notifyCert mail now ds rcpts st (i, c)) = outbox st @ stepBox mail ds rcpts i c"
  by (simp add: notifyCert_def Let_def alreadySentFor_def stepBox_def saveCertificate_def
        split: option.splits)

lemma notifyCert_length:
  "length (certs (notifyCert mail now ds rcpts st (j, c))) = length (certs st)"
  by (simp add: notifyCert_certs)

lemma notifyCert_other:
  "k \<noteq> j \<Longrightarrow> certs (notifyCert mail now ds rcpts st (j, c)) ! k = certs st ! k"
  by (simp add: notifyCert_certs)

lemma notifyCert_same:
  "j < length (certs st) \<Longrightarrow> certs st ! j = c \<Longrightarrow>
   certs (notifyCert mail now ds rcpts st (j, c)) ! j = stepDoc mail now ds rcpts c"
  by (simp add: notifyCert_certs stepDoc_def)

lemma foldl_notifyCert:
  assumes "distinct (map fst fs)"
    and "\<And>j c. (j, c) \<in> set fs \<Longrightarrow> j < length (certs st) \<and> certs st ! j = c"
  shows "length (certs (foldl (notifyCert mail now ds rcpts) st fs)) = length (certs st)
     \<and> (\<forall>i < length (certs st).
         certs (foldl (notifyCert mail now ds rcpts) st fs) ! i =
           (if i \<in> fst ` set fs then stepDoc mail now ds rcpts (certs st ! i) else certs st ! i))
     \<and> (\<forall>i. filter (\<lambda>a. certPos a = i) (outbox (foldl (notifyCert mail now ds rcpts) st fs)) =
           filter (\<lambda>a. certPos a = i) (outbox st) @
           (if i \<in> fst ` set fs then stepBox mail ds rcpts i (certs st ! i) else []))"
  using assms
proof (induction fs arbitrary: st)
  case Nil
  show ?case by simp
next
  case (Cons f fs)
  obtain j c where f: "f = (j, c)" by (cases f)
  let ?st1 = "notifyCert mail now ds rcpts st (j, c)"
  let ?st2 = "foldl (notifyCert mail now ds rcpts) ?st1 fs"
  have jc: "j < length (certs st)" "certs st ! j = c"
    using Cons.prems(2) [of j c] f by auto
  have d: "distinct (map fst fs)" "j \<notin> fst ` set fs"
    using Cons.prems(1) f by auto
  have inv: "k < length (certs ?st1) \<and> certs ?st1 ! k = c'" if kc: "(k, c') \<in> set fs" for k c'
  proof -
    from kc have "k \<noteq> j" using d(2) by force
    moreover have "k < length (certs st)" "certs st ! k = c'"
      using Cons.prems(2) [of k c'] kc by simp_all
    ultimately show ?thesis
      by (simp add: notifyCert_length notifyCert_other)
  qed
  note IH = Cons.IH [OF d(1) inv]
  have fold: "foldl (notifyCert mail now ds rcpts) st (f # fs) = ?st2"
    by (simp add: f)
  have A: "length (certs ?st2) = length (certs st)"
    using IH by (simp add: notifyCert_length)
  have B: "certs ?st2 ! i =
      (if i \<in> fst ` set (f # fs) then stepDoc mail now ds rcpts (certs st ! i) else certs st ! i)"
    if i: "i < length (certs st)" for i
  proof (cases "i = j")
    case True
    have "certs ?st2 ! i = certs ?st1 ! i"
      using IH i d(2) True by (simp add: notifyCert_length)
    then show ?thesis using True jc f by (simp add: notifyCert_same)
  next
    case False
    have "certs ?st2 ! i =
      (if i \<in> fst ` set fs then stepDoc mail now ds rcpts (certs ?st1 ! i) else certs ?st1 ! i)"
      using IH i by (simp add: notifyCert_length)
    then show ?thesis using False f by (simp add: notifyCert_other)
  qed
  have C: "filter (\<lambda>a. certPos a = i) (outbox ?st2) =
           filter (\<lambda>a. certPos a = i) (outbox st) @
           (if i \<in> fst ` set (f # fs) then stepBox mail ds rcpts i (certs st ! i) else [])" for i
  proof (cases "i = j")
    case True
    have "filter (\<lambda>a. certPos a = i) (outbox ?st2) = filter (\<lambda>a. certPos a = i) (outbox ?st1)"
      using IH d(2) True by simp
    then show ?thesis
      using True jc f by (auto simp: notifyCert_outbox stepBox_def)
  next
    case False
    have "filter (\<lambda>a. certPos a = i) (outbox ?st2) =
           filter (\<lambda>a. certPos a = i) (outbox ?st1) @
           (if i \<in> fst ` set fs then stepBox mail ds rcpts i (certs ?st1 ! i) else [])"
      using IH by simp
    then show ?thesis
      using False f by (auto simp: notifyCert_outbox notifyCert_other stepBox_def)
  qed
  show ?case unfolding fold using A B C by blast
qed

lemma found_positions:
  "fst ` set (findCertificatesExpiringInDays now ds coll) = {i. i < length coll \<and> inWindow now ds (coll ! i)}"
  by (force simp: findCertificatesExpiringInDays_def inWindow_def Let_def in_set_enumerate_eq image_iff)

lemma found_distinct: "distinct (map fst (findCertificatesExpiringInDays now ds coll))"
  by (simp add: findCertificatesExpiringInDays_def Let_def distinct_map_filter)

lemma found_snapshot:
  "(j, c) \<in> set (findCertificatesExpiringInDays now ds coll) \<Longrightarrow> j < length coll \<and> coll ! j = c"
  by (auto simp: findCertificatesExpiringInDays_def Let_def in_set_enumerate_eq)

lemma notifyThreshold_facts:
  "length (certs (notifyThreshold mail now rcpts st ds)) = length (certs st)
   \<and> (\<forall>i < length (certs st).
        certs (notifyThreshold mail now rcpts st ds) ! i = docStep mail now rcpts (certs st ! i) ds)
   \<and> (\<forall>i. filter (\<lambda>a. certPos a = i) (outbox (notifyThreshold mail now rcpts st ds)) =
          filter (\<lambda>a. certPos a = i) (outbox st) @
          (if i < length (certs st) then boxStep mail now rcpts i (certs st ! i) ds else []))"
  using foldl_notifyCert [of "findCertificatesExpiringInDays now ds (certs st)" st mail now ds rcpts,
          OF found_distinct found_snapshot]
  by (simp add: notifyThreshold_def found_positions docStep_def boxStep_def)

lemma thresholds_fold:
  "length (certs (foldl (notifyThreshold mail now rcpts) st dss)) = length (certs st)
   \<and> (\<forall>i < length (certs st).
        certs (foldl (notifyThreshold mail now rcpts) st dss) ! i
          = foldl (docStep mail now rcpts) (certs st ! i) dss)
   \<and> (\<forall>i. filter (\<lambda>a. certPos a = i) (outbox (foldl (notifyThreshold mail now rcpts) st dss)) =
          filter (\<lambda>a. certPos a = i) (outbox st) @
          (if i < length (certs st) then boxRun mail now rcpts i (certs st ! i) dss else []))"
proof (induction dss arbitrary: st)
  case Nil
  show ?case by simp
next
  case (Cons ds dss)
  note T = notifyThreshold_facts [of mail now rcpts st ds]
  note IH = Cons.IH [of "notifyThreshold mail now rcpts st ds"]
  show ?case using T IH by simp
qed

lemma dispatch_fold:
  "\<exists>dss rcpts. sendExpirationNotifications mail now settings users coll
      = foldl (notifyThreshold mail now rcpts) (initialState coll) dss"
proof -
  have nil: "initialState coll = foldl (notifyThreshold mail now []) (initialState coll) []"
    by simp
  show ?thesis
  proof (cases "sendExpirationNotifications mail now settings users coll = initialState coll")
    case True
    then show ?thesis using nil by metis
  next
    case False
    then show ?thesis
      unfolding sendExpirationNotifications_def initialState_def Let_def
      by (auto split: option.splits if_splits)
  qed
qed

lemma run_position:
  assumes "i < length coll"
  shows "length (certs (foldl (notifyThreshold mail now rcpts) (initialState coll) dss)) = length coll"
    and "certs (foldl (notifyThreshold mail now rcpts) (initialState coll) dss) ! i
           = foldl (docStep mail now rcpts) (coll ! i) dss"
    and "filter (\<lambda>a. certPos a = i) (outbox (foldl (notifyThreshold mail now rcpts) (initialState coll) dss))
           = boxRun mail now rcpts i (coll ! i) dss"
proof -
  note T = thresholds_fold [of mail now rcpts "initialState coll" dss]
  show "length (certs (foldl (notifyThreshold mail now rcpts) (initialState coll) dss)) = length coll"
    using T by (simp add: initialState_def)
  show "certs (foldl (notifyThreshold mail now rcpts) (initialState coll) dss) ! i
           = foldl (docStep mail now rcpts) (coll ! i) dss"
    using T assms by (simp add: initialState_def)
  show "filter (\<lambda>a. certPos a = i) (outbox (foldl (notifyThreshold mail now rcpts) (initialState coll) dss))
           = boxRun mail now rcpts i (coll ! i) dss"
    using T assms by (simp add: initialState_def)
qed

text \<open>
  C10. The dispatcher never notifies on a revoked certificate: the query of every
  threshold leaves the revoked document out, so a run (whatever the settings, the instant
  and the mailer) makes no call of the mailer for it and leaves the document, and hence
  its notificationsSent, as it was.
\<close>

theorem revoked_never_notified:
  assumes "i < length coll" and "Certificate.status (coll ! i) = Revoked"
  shows "i \<notin> fst ` set (findCertificatesExpiringInDays now ds coll)
       \<and> certs (sendExpirationNotifications mail now settings users coll) ! i = coll ! i
       \<and> filter (\<lambda>a. certPos a = i)
            (outbox (sendExpirationNotifications mail now settings users coll)) = []"
proof -
  have no: "\<not> inWindow t d (coll ! i)" for t d
    using assms(2) by (simp add: inWindow_def expiringInDaysFilter_def)
  have doc: "foldl (docStep mail now rcpts) (coll ! i) dss = coll ! i" for rcpts dss
    by (induction dss) (simp_all add: docStep_def no)
  have box: "boxRun mail now rcpts i (coll ! i) dss = []" for rcpts dss
    by (induction dss) (simp_all add: docStep_def boxStep_def no)
  obtain dss rcpts where st: "sendExpirationNotifications mail now settings users coll
      = foldl (notifyThreshold mail now rcpts) (initialState coll) dss"
    using dispatch_fold by blast
  show ?thesis
    unfolding st using run_position(2,3) [OF assms(1), of mail now rcpts dss] doc box no
    by (simp add: found_positions)
qed

theorem revoked_never_notified_witness:
  "1 < length [sampleCert ''01'' 604801000 Active, sampleCert ''02'' 604801000 Revoked]
   \<and> Certificate.status ([sampleCert ''01'' 604801000 Active, sampleCert ''02'' 604801000 Revoked] ! 1) = Revoked
   \<and> certs (sendExpirationNotifications (\<lambda>c ds rs. None) 1000 (Some sampleSettings) []
        [sampleCert ''01'' 604801000 Active, sampleCert ''02'' 604801000 Revoked]) ! 1
      = sampleCert ''02'' 604801000 Revoked
   \<and> filter (\<lambda>a. certPos a = 1)
        (outbox (sendExpirationNotifications (\<lambda>c ds rs. None) 1000 (Some sampleSettings) []
           [sampleCert ''01'' 604801000 Active, sampleCert ''02'' 604801000 Revoked])) = []"
proof -
  have h1: "1 < length [sampleCert ''01'' 604801000 Active, sampleCert ''02'' 604801000 Revoked]"
    by simp
  have h2: "Certificate.status ([sampleCert ''01'' 604801000 Active, sampleCert ''02'' 604801000 Revoked] ! 1)
      = Revoked"
    by (simp add: sampleCert_def)
  show ?thesis
    using h1 h2 revoked_never_notified [OF h1 h2, of 1000 7 "\<lambda>c ds rs. None" "Some sampleSettings" "[]"]
    by simp
qed

text \<open>
  C8. At most one notification per certificate and threshold: a certificate in the window
  of a threshold, with no record of that threshold, is sent one message and gets one
  record, and a second run before the next day boundary sends nothing more for the pair.

  The dispatcher does not do this when the save of the record throws after the send has
  returned. The settings endpoint stores any list of thresholds, and the schema of the
  certificate collection admits only the six record types \<open>NOTIFICATION_TYPES\<close>. With
  an enabled threshold of 45 days and a certificate that expires in 45 days, the first
  run sends the message, the save of the record \<^verbatim>\<open>45day\<close> is refused, the catch block
  counts a failure and the stored document keeps no record. A second run one hour later
  finds the same document without a record and sends the message again.
\<close>

theorem unlisted_threshold_resends:
  "outbox (sendExpirationNotifications reliableMailer 0 (Some customSettings) []
       [sampleCert ''01'' 3888000000 Active])
     = [\<lparr>certPos = 0, forDays = 45, delivered = True\<rparr>]
   \<and> certs (sendExpirationNotifications reliableMailer 0 (Some customSettings) []
       [sampleCert ''01'' 3888000000 Active])
     = [sampleCert ''01'' 3888000000 Active]
   \<and> notificationsSent (sampleCert ''01'' 3888000000 Active) = []
   \<and> sent (result (sendExpirationNotifications reliableMailer 0 (Some customSettings) []
       [sampleCert ''01'' 3888000000 Active])) = 0
   \<and> failed (result (sendExpirationNotifications reliableMailer 0 (Some customSettings) []
       [sampleCert ''01'' 3888000000 Active])) = 1
   \<and> outbox (sendExpirationNotifications reliableMailer 3600000 (Some customSettings) []
       (certs (sendExpirationNotifications reliableMailer 0 (Some customSettings) []
          [sampleCert ''01'' 3888000000 Active])))
     = [\<lparr>certPos = 0, forDays = 45, delivered = True\<rparr>]"
proof -
  have t: "dayType 45 = ''45day''"
    by code_simp
  have f0: "findCertificatesExpiringInDays 0 45 [sampleCert ''01'' 3888000000 Active]
      = [(0, sampleCert ''01'' 3888000000 Active)]"
    by (simp add: findCertificatesExpiringInDays_def expiringInDaysFilter_def sampleCert_def
          enumerate_eq_zip)
  have f1: "findCertificatesExpiringInDays 3600000 45 [sampleCert ''01'' 3888000000 Active]
      = [(0, sampleCert ''01'' 3888000000 Active)]"
    by (simp add: findCertificatesExpiringInDays_def expiringInDaysFilter_def sampleCert_def
          enumerate_eq_zip)
  have r: "resolveRecipients [] (NotificationSettings.recipients customSettings)
      = [''pki@example.com'']"
    by (simp add: resolveRecipients_def resolveRecipient_def addEmail_def customSettings_def)
  have e: "certificateSchemaErrors
      (recordSent now 45 [''pki@example.com''] (sampleCert ''01'' 3888000000 Active))
      = [''notificationsSent.type'']" for now
    by (simp add: certificateSchemaErrors_def recordSent_def sampleCert_def t
          NOTIFICATION_TYPES_def)
  have a: "\<not> alreadySentFor 45 (sampleCert ''01'' 3888000000 Active)"
    by (simp add: alreadySentFor_def sampleCert_def)
  have n: "notifyCert reliableMailer now 45 [''pki@example.com''] (initialState coll)
        (0, sampleCert ''01'' 3888000000 Active)
      = (initialState coll)\<lparr>result := \<lparr>NotificationResult.success = True, NotificationResult.sent = 0,
            NotificationResult.failed = 1, NotificationResult.errors = [''Failed to send for www.example.com: ValidationError: Certificate validation failed: notificationsSent.type'']\<rparr>,
          outbox := [\<lparr>certPos = 0, forDays = 45, delivered = True\<rparr>]\<rparr>" for now coll
    using e [of now] a
    by (simp add: notifyCert_def Let_def alreadySentFor_def recordSent_def saveCertificate_def
          reliableMailer_def initialState_def sampleCert_def)
  have s: "sendExpirationNotifications reliableMailer now (Some customSettings) [] coll
      = notifyThreshold reliableMailer now [''pki@example.com''] (initialState coll) 45" for now coll
    using r by (simp add: sendExpirationNotifications_def Let_def initialState_def customSettings_def)
  have ci: "certs (initialState coll) = coll" for coll
    by (simp add: initialState_def)
  have run0: "sendExpirationNotifications reliableMailer 0 (Some customSettings) []
        [sampleCert ''01'' 3888000000 Active]
      = (initialState [sampleCert ''01'' 3888000000 Active])\<lparr>result := \<lparr>NotificationResult.success = True, NotificationResult.sent = 0,
            NotificationResult.failed = 1, NotificationResult.errors = [''Failed to send for www.example.com: ValidationError: Certificate validation failed: notificationsSent.type'']\<rparr>,
          outbox := [\<lparr>certPos = 0, forDays = 45, delivered = True\<rparr>]\<rparr>"
    unfolding s by (simp add: notifyThreshold_def ci f0 n)
  have run1: "sendExpirationNotifications reliableMailer 3600000 (Some customSettings) []
        [sampleCert ''01'' 3888000000 Active]
      = (initialState [sampleCert ''01'' 3888000000 Active])\<lparr>result := \<lparr>NotificationResult.success = True, NotificationResult.sent = 0,
            NotificationResult.failed = 1, NotificationResult.errors = [''Failed to send for www.example.com: ValidationError: Certificate validation failed: notificationsSent.type'']\<rparr>,
          outbox := [\<lparr>certPos = 0, forDays = 45, delivered = True\<rparr>]\<rparr>"
    unfolding s by (simp add: notifyThreshold_def ci f1 n)
  have c0: "certs (sendExpirationNotifications reliableMailer 0 (Some customSettings) []
        [sampleCert ''01'' 3888000000 Active]) = [sampleCert ''01'' 3888000000 Active]"
    unfolding run0 by (simp add: initialState_def)
  show ?thesis
    unfolding c0 unfolding run0 run1 by (simp add: initialState_def sampleCert_def)
qed

section \<open>Properties of the command gateway\<close>

lemma psLiteralBody_plain:
  "c \<noteq> squote \<Longrightarrow> ys \<noteq> [] \<Longrightarrow>
   psLiteralBody (c # ys) = map_option (\<lambda>r. (c # fst r, snd r)) (psLiteralBody ys)"
  by (cases ys) simp_all

lemma psLiteralBody_close:
  "rest = [] \<or> hd rest \<noteq> squote \<Longrightarrow> psLiteralBody (squote # rest) = Some ([], rest)"
  by (cases rest) auto

lemma psLiteralBody_sanitized:
  assumes "rest = [] \<or> hd rest \<noteq> squote"
  shows "psLiteralBody (sanitizePSString s @ squote # rest) = Some (s, rest)"
proof (induction s)
  case Nil
  show ?case using psLiteralBody_close [OF assms] by (simp add: sanitizePSString_def)
next
  case (Cons c cs)
  show ?case
  proof (cases "c = squote")
    case True
    then show ?thesis using Cons by (simp add: sanitizePSString_def)
  next
    case False
    have "sanitizePSString (c # cs) @ squote # rest = c # (sanitizePSString cs @ squote # rest)"
      using False by (simp add: sanitizePSString_def)
    then show ?thesis
      using psLiteralBody_plain [OF False, of "sanitizePSString cs @ squote # rest"] Cons
      by simp
  qed
qed

lemma joinWith_spaced:
  "xs \<noteq> [] \<Longrightarrow> '' '' @ joinWith '' '' xs = concat (map (\<lambda>p. '' '' @ p) xs)"
  by (induction "'' ''" xs rule: joinWith.induct) simp_all

lemma command_with_parameters:
  "(if filter (\<lambda>p. p \<noteq> []) ps \<noteq> []
    then command @ '' '' @ joinWith '' '' (filter (\<lambda>p. p \<noteq> []) ps) else command)
   = command @ spaced ps"
  using joinWith_spaced [of "filter (\<lambda>p. p \<noteq> []) ps"] by (simp add: spaced_def)

lemma paramStringsOf_append:
  "paramStringsOf pre = Inr rpre \<Longrightarrow> paramStringsOf post = Inr rpost \<Longrightarrow>
   paramStringsOf (pre @ post) = Inr (rpre @ rpost)"
  by (induction pre arbitrary: rpre) (auto split: sum.splits)

lemma spaced_append: "spaced (ps @ qs) = spaced ps @ spaced qs"
  by (simp add: spaced_def)

lemma spaced_Cons: "p \<noteq> [] \<Longrightarrow> spaced (p # ps) = '' '' @ p @ spaced ps"
  by (simp add: spaced_def)

lemma spaced_head: "spaced ps = [] \<or> hd (spaced ps) = CHR '' ''"
  by (induction ps) (auto simp add: spaced_def)

lemma executePowerShell_spawn:
  assumes "truthy (scriptFile options) \<or> truthy (script options)"
    and "truthy (scriptFile options) \<longrightarrow>
           the (scriptFile options) \<in> set ALLOWED_SCRIPTS
           \<and> startsWith (pathResolve env (pathJoin env (scriptsDir env) (the (scriptFile options))))
                 (pathResolve env (scriptsDir env))"
    and "truthy (remoteComputer options) \<longrightarrow> validateHostname (the (remoteComputer options))"
    and "paramStringsOf (parameters options) = Inr ps"
  shows "snd (executePowerShell env options)
     = [\<lparr>program = ''powershell.exe'',
         args = [''-NoProfile'', ''-NonInteractive'', ''-ExecutionPolicy'', ''Bypass'', ''-Command'',
                 (if truthy (remoteComputer options)
                  then ''Invoke-Command -ComputerName '' @ [squote]
                       @ sanitizePSString (the (remoteComputer options)) @ [squote]
                       @ '' -ScriptBlock { ''
                  else [])
                 @ (if truthy (scriptFile options)
                    then ''& '' @ [squote]
                         @ sanitizePSString (pathJoin env (scriptsDir env) (the (scriptFile options)))
                         @ [squote]
                    else the (script options))
                 @ spaced ps
                 @ (if truthy (remoteComputer options) then '' }'' else [])],
         timeoutMs = (case timeout options of None \<Rightarrow> 60000 | Some t \<Rightarrow> t)\<rparr>]"
proof (cases "truthy (scriptFile options)")
  case True
  with assms(2-4) show ?thesis
    by (simp add: executePowerShell_def Let_def command_with_parameters runProcess_def)
next
  case False
  with assms(1) have "truthy (script options)"
    by simp
  with False assms(3,4) show ?thesis
    by (simp add: executePowerShell_def Let_def command_with_parameters runProcess_def)
qed

text \<open>
  C3. Escaping round trip. For every string \<open>s\<close>, the literal made by doubling each
  single quote of \<open>s\<close> and wrapping the result in single quotes is read back by the shell
  as exactly \<open>s\<close>, followed by whatever followed the literal. The gateway embeds every
  string parameter value this way: when \<^verbatim>\<open>executePowerShell\<close> accepts its options
  (a listed script inside the scripts directory or an inline script, a valid remote
  computer name if one is given, parameters that all have a text), it spawns one process,
  and for every string parameter \<open>(key, s)\<close> the command handed to the process holds,
  after the command proper and the parameters before it, the key and the literal of \<open>s\<close>,
  then the parameters after it and the closing brace of a remote call. The shell reads
  \<open>s\<close> back from the literal at that place of the command, and what remains is the rest
  of the command.
\<close>

theorem single_quote_roundtrip:
  assumes "truthy (scriptFile options) \<or> truthy (script options)"
    and "truthy (scriptFile options) \<longrightarrow>
           the (scriptFile options) \<in> set ALLOWED_SCRIPTS
           \<and> startsWith (pathResolve env (pathJoin env (scriptsDir env) (the (scriptFile options))))
                 (pathResolve env (scriptsDir env))"
    and "truthy (remoteComputer options) \<longrightarrow> validateHostname (the (remoteComputer options))"
    and "parameters options = pre @ (key, PString s) # post"
    and "paramStringsOf pre = Inr rpre" and "paramStringsOf post = Inr rpost"
    and "safeParamKey key"
  shows "snd (executePowerShell env options)
     = [\<lparr>program = ''powershell.exe'',
         args = [''-NoProfile'', ''-NonInteractive'', ''-ExecutionPolicy'', ''Bypass'', ''-Command'',
                 (if truthy (remoteComputer options)
                  then ''Invoke-Command -ComputerName '' @ [squote]
                       @ sanitizePSString (the (remoteComputer options)) @ [squote]
                       @ '' -ScriptBlock { ''
                  else [])
                 @ (if truthy (scriptFile options)
                    then ''& '' @ [squote]
                         @ sanitizePSString (pathJoin env (scriptsDir env) (the (scriptFile options)))
                         @ [squote]
                    else the (script options))
                 @ spaced rpre
                 @ '' -'' @ key @ '' '' @ [squote] @ sanitizePSString s @ [squote]
                 @ spaced rpost
                 @ (if truthy (remoteComputer options) then '' }'' else [])],
         timeoutMs = (case timeout options of None \<Rightarrow> 60000 | Some t \<Rightarrow> t)\<rparr>]
   \<and> psLiteral ([squote] @ sanitizePSString s @ [squote] @ spaced rpost
                 @ (if truthy (remoteComputer options) then '' }'' else []))
       = Some (s, spaced rpost @ (if truthy (remoteComputer options) then '' }'' else []))
   \<and> (\<forall>rest. rest = [] \<or> hd rest \<noteq> squote \<longrightarrow>
         psLiteral ([squote] @ sanitizePSString s @ [squote] @ rest) = Some (s, rest))"
proof -
  have lit: "psLiteral ([squote] @ sanitizePSString s @ [squote] @ rest) = Some (s, rest)"
    if "rest = [] \<or> hd rest \<noteq> squote" for rest
    using psLiteralBody_sanitized [OF that, of s] by (simp add: psLiteral_def)
  have p: "paramString (key, PString s)
      = Inr (''-'' @ key @ '' '' @ [squote] @ sanitizePSString s @ [squote])"
    using assms(7) by (simp add: paramString_def)
  have "paramStringsOf ((key, PString s) # post)
      = Inr ((''-'' @ key @ '' '' @ [squote] @ sanitizePSString s @ [squote]) # rpost)"
    using p assms(6) by simp
  then have ps: "paramStringsOf (parameters options)
      = Inr (rpre @ (''-'' @ key @ '' '' @ [squote] @ sanitizePSString s @ [squote]) # rpost)"
    using paramStringsOf_append [OF assms(5)] assms(4) by simp
  have sp: "spaced (rpre @ (''-'' @ key @ '' '' @ [squote] @ sanitizePSString s @ [squote]) # rpost)
      = spaced rpre @ '' -'' @ key @ '' '' @ [squote] @ sanitizePSString s @ [squote] @ spaced rpost"
    by (simp add: spaced_append spaced_Cons)
  have tl: "r = [] \<or> hd r \<noteq> squote"
    if "r = spaced rpost @ (if truthy (remoteComputer options) then '' }'' else [])" for r
    using that spaced_head [of rpost] by (cases "spaced rpost") auto
  show ?thesis
    using executePowerShell_spawn [OF assms(1-3) ps, of] lit [OF tl [OF refl]] lit
    unfolding sp by simp
qed

theorem single_quote_roundtrip_witness:
  "snd (executePowerShell sampleEnv
      \<lparr>script = None, scriptFile = Some ''Bind-IISCertificate.ps1'',
       parameters = [(''SiteName'', PString (''O'' @ [squote] @ ''Brien'')),
                     (''Port'', PNumber (Finite ''443''))],
       timeout = None, remoteComputer = Some ''web01''\<rparr>)
     = [\<lparr>program = ''powershell.exe'',
         args = [''-NoProfile'', ''-NonInteractive'', ''-ExecutionPolicy'', ''Bypass'', ''-Command'',
                 ''Invoke-Command -ComputerName '' @ [squote] @ ''web01'' @ [squote]
                 @ '' -ScriptBlock { & '' @ [squote] @ ''/app/scripts/Bind-IISCertificate.ps1''
                 @ [squote] @ '' -SiteName '' @ [squote] @ ''O'' @ [squote, squote] @ ''Brien''
                 @ [squote] @ '' -Port 443 }''],
         timeoutMs = 60000\<rparr>]
   \<and> psLiteral ([squote] @ ''O'' @ [squote, squote] @ ''Brien'' @ [squote] @ '' -Port 443 }'')
       = Some (''O'' @ [squote] @ ''Brien'', '' -Port 443 }'')"
proof -
  let ?o = "\<lparr>script = None, scriptFile = Some ''Bind-IISCertificate.ps1'',
       parameters = [(''SiteName'', PString (''O'' @ [squote] @ ''Brien'')),
                     (''Port'', PNumber (Finite ''443''))],
       timeout = None, remoteComputer = Some ''web01''\<rparr>"
  have a1: "truthy (scriptFile ?o) \<or> truthy (script ?o)"
    by (simp add: truthy_def)
  have a2: "truthy (scriptFile ?o) \<longrightarrow>
           the (scriptFile ?o) \<in> set ALLOWED_SCRIPTS
           \<and> startsWith (pathResolve sampleEnv (pathJoin sampleEnv (scriptsDir sampleEnv) (the (scriptFile ?o))))
                 (pathResolve sampleEnv (scriptsDir sampleEnv))"
    by (simp add: truthy_def ALLOWED_SCRIPTS_def startsWith_def sampleEnv_def)
  have a3: "truthy (remoteComputer ?o) \<longrightarrow> validateHostname (the (remoteComputer ?o))"
    by (simp add: truthy_def validateHostname_def alnumChars_def)
  have a4: "parameters ?o = [] @ (''SiteName'', PString (''O'' @ [squote] @ ''Brien''))
      # [(''Port'', PNumber (Finite ''443''))]"
    by simp
  have a5: "paramStringsOf [] = Inr []"
    by simp
  have a6: "paramStringsOf [(''Port'', PNumber (Finite ''443''))] = Inr [''-Port 443'']"
    by (simp add: paramString_def safeParamKey_def alphaChars_def alnumChars_def)
  have a7: "safeParamKey ''SiteName''"
    by (simp add: safeParamKey_def alphaChars_def alnumChars_def)
  show ?thesis
    using single_quote_roundtrip [OF a1 a2 a3 a4 a5 a6 a7]
    by (simp add: truthy_def sanitizePSString_def spaced_def sampleEnv_def)
qed

text \<open>
  C2, as stated, fails for the empty identifier: it is not in the allow-list, but the
  gateway tests \<^verbatim>\<open>if (scriptFile)\<close>, which is false for the empty string, so the
  inline script of the same call runs and a process is spawned.
\<close>

theorem unlisted_script_counterexample:
  "[] \<notin> set ALLOWED_SCRIPTS
   \<and> executePowerShell sampleEnv
        \<lparr>script = Some ''Get-Date'', scriptFile = Some [], parameters = [],
         timeout = None, remoteComputer = None\<rparr>
      = (Inr \<lparr>PowerShellResult.success = True, output' = ''ok'', PowerShellResult.error = None\<rparr>,
         [\<lparr>program = ''powershell.exe'',
           args = [''-NoProfile'', ''-NonInteractive'', ''-ExecutionPolicy'', ''Bypass'',
                   ''-Command'', ''Get-Date''],
           timeoutMs = 60000\<rparr>])"
  by (simp add: ALLOWED_SCRIPTS_def executePowerShell_def truthy_def runProcess_def
        sampleEnv_def trim_def isSpace_def Let_def)

text \<open>
  C2, amended. For every non-empty scriptFile identifier that is not in the allow-list
  (traversal strings included), \<^verbatim>\<open>executePowerShell\<close> resolves to the failure
  "Script not allowed: ..." and spawns no process, whatever the rest of the options. An
  empty scriptFile is treated as if none was given.
\<close>

theorem unlisted_script_refused:
  assumes "scriptFile options = Some f" and "f \<notin> set ALLOWED_SCRIPTS"
  shows "(f \<noteq> [] \<longrightarrow>
            executePowerShell env options = (Inr (failure (''Script not allowed: '' @ f)), []))
       \<and> (f = [] \<longrightarrow>
            executePowerShell env options = executePowerShell env (options\<lparr>scriptFile := None\<rparr>))"
  using assms by (simp add: executePowerShell_def truthy_def Let_def split: sum.split)

theorem unlisted_script_refused_witness:
  "''../../etc/passwd'' \<notin> set ALLOWED_SCRIPTS
   \<and> executePowerShell sampleEnv
        \<lparr>script = None, scriptFile = Some ''../../etc/passwd'', parameters = [],
         timeout = None, remoteComputer = None\<rparr>
      = (Inr \<lparr>PowerShellResult.success = False, output' = [],
              PowerShellResult.error = Some ''Script not allowed: ../../etc/passwd''\<rparr>, [])"
proof -
  have n: "''../../etc/passwd'' \<notin> set ALLOWED_SCRIPTS"
    by (simp add: ALLOWED_SCRIPTS_def)
  have s: "scriptFile \<lparr>script = None, scriptFile = Some ''../../etc/passwd'', parameters = [],
         timeout = None, remoteComputer = None\<rparr> = Some ''../../etc/passwd''"
    by simp
  show ?thesis
    using n unlisted_script_refused [OF s n, of sampleEnv] by (simp add: failure_def)
qed

section \<open>Properties of the CSR workflow engine\<close>

text \<open>
  C5. Delete and the submitted state. For a CSR with status submitted, \<^verbatim>\<open>deleteCSR\<close>
  answers 400 "Cannot delete submitted CSR" and leaves the store as it was; for a CSR
  with status draft, pending, failed or cancelled it answers 200 and the document is
  gone from the store (no other document is touched).
\<close>

theorem submitted_delete_refused:
  assumes "csrs db csrId = Some csr"
  shows "(status csr = Submitted \<longrightarrow>
            deleteCSR db csrId = ((400, ErrorBody ''Cannot delete submitted CSR'' None), db))
       \<and> (status csr = Draft \<or> status csr = Pending \<or> status csr = Failed \<or> status csr = Cancelled
            \<longrightarrow> fst (deleteCSR db csrId) = (200, MessageBody ''CSR request deleted'' None)
                \<and> csrs (snd (deleteCSR db csrId)) = (csrs db)(csrId := None))"
  using assms by (auto simp: deleteCSR_def)

theorem submitted_delete_refused_witness:
  "csrs (dbWith (sampleCsr\<lparr>status := Submitted\<rparr>)) 1 = Some (sampleCsr\<lparr>status := Submitted\<rparr>)
   \<and> deleteCSR (dbWith (sampleCsr\<lparr>status := Submitted\<rparr>)) 1
       = ((400, ErrorBody ''Cannot delete submitted CSR'' None),
          dbWith (sampleCsr\<lparr>status := Submitted\<rparr>))
   \<and> csrs (dbWith sampleCsr) 1 = Some sampleCsr
   \<and> status sampleCsr = Draft
   \<and> csrs (snd (deleteCSR (dbWith sampleCsr) 1)) 1 = None"
proof -
  have h1: "csrs (dbWith (sampleCsr\<lparr>status := Submitted\<rparr>)) 1
      = Some (sampleCsr\<lparr>status := Submitted\<rparr>)"
    by (simp add: dbWith_def)
  have h2: "csrs (dbWith sampleCsr) 1 = Some sampleCsr"
    by (simp add: dbWith_def)
  have h3: "status sampleCsr = Draft"
    by (simp add: sampleCsr_def)
  show ?thesis
    using h1 h2 h3 submitted_delete_refused [OF h1] submitted_delete_refused [OF h2]
    by simp
qed

lemma sample_cn: "validateSubjectField ''test.example.com''"
  by (simp add: validateSubjectField_def alnumChars_def)

















lemma sample_checks:
  "validateSubjectField (commonName sampleCsr)"
  "keySize sampleCsr \<in> set VALID_KEY_SIZES"
  "invalidSubjectField (subject sampleCsr) = None"
  "find (\<lambda>san. \<not> validateSAN san) (subjectAlternativeNames sampleCsr) = None"
  "targetServerId sampleCsr = None"
  "status sampleCsr = Draft"
  "csrPEM sampleCsr = None"
  using sample_cn
  by (simp_all add: sampleCsr_def VALID_KEY_SIZES_def invalidSubjectField_def truthy_def)



lemma markStep_step [simp]: "step (markStep now st err s) = step s"
  by (simp add: markStep_def Let_def)

lemma markStep_status [simp]: "WorkflowStep.status (markStep now st err s) = st"
  by (simp add: markStep_def Let_def)




lemma csrPEM_updateWorkflowStep [simp]:
  "csrPEM (updateWorkflowStep now nm st err csr) = csrPEM csr"
  by (simp add: updateWorkflowStep_def)

lemma generateStep_fields [simp]:
  "generateStep (csr\<lparr>status := a\<rparr>) = generateStep csr"
  "generateStep (csr\<lparr>csrPEM := b\<rparr>) = generateStep csr"
  "generateStep (csr\<lparr>privateKeyLocation := c\<rparr>) = generateStep csr"
  "generateStep (csr\<lparr>errorMessage := d\<rparr>) = generateStep csr"
  "generateStep (csr\<lparr>processedAt := e\<rparr>) = generateStep csr"
  by (simp_all add: generateStep_def)

lemma generateCompleted_fields [simp]:
  "generateCompleted (csr\<lparr>status := a\<rparr>) = generateCompleted csr"
  "generateCompleted (csr\<lparr>processedAt := e\<rparr>) = generateCompleted csr"
  by (simp_all add: generateCompleted_def)

lemma generateStep_applyAllowedFields [simp]:
  "generateStep (applyAllowedFields b csr) = generateStep csr"
  "csrPEM (applyAllowedFields b csr) = csrPEM csr"
  by (simp_all add: generateStep_def applyAllowedFields_def)





















end
